theory Spec2Isabelle
  imports Main "HOL-Library.Word" "HOL-Library.Multiset"
begin

unbundle bit_operations_syntax

section \<open>Go values\<close>

text \<open>
  A Go \<^verbatim>\<open>[]byte\<close> is a list of 8-bit words, a Go \<^verbatim>\<open>string\<close> a list of characters
  (an Isabelle \<^typ>\<open>char\<close> is one byte).  \<^verbatim>\<open>string(data)\<close> and \<^verbatim>\<open>[]byte(s)\<close> convert
  between the two without changing a byte.
\<close>

type_synonym bytes = "8 word list"

definition string_of_bytes :: "bytes \<Rightarrow> string" where
  "string_of_bytes b = map (\<lambda>v. char_of (unat v)) b"

definition bytes_of_string :: "string \<Rightarrow> bytes" where
  "bytes_of_string s = map of_char s"

text \<open>
  Errors are values.  \<^verbatim>\<open>fmt.Errorf\<close> with a plain message is \<open>Err\<close>, with a message and a
  wrapped error (\<^verbatim>\<open>%w\<close>) it is \<open>Wrapped\<close>; \<^verbatim>\<open>filesystem.ErrNotFound\<close> is the sentinel
  \<open>ErrNotFound\<close>, and a run-time panic of the Go runtime (a send on a closed channel) is
  \<open>Panic\<close>.
\<close>

datatype error = Err string | Wrapped string error | ErrNotFound | Panic string

subsection \<open>Package strings\<close>

definition HasPrefix :: "string \<Rightarrow> string \<Rightarrow> bool" where
  "HasPrefix s prefix = (length prefix \<le> length s \<and> take (length prefix) s = prefix)"

definition TrimPrefix :: "string \<Rightarrow> string \<Rightarrow> string" where
  "TrimPrefix s prefix = (if HasPrefix s prefix then drop (length prefix) s else s)"

text \<open>
  \<^verbatim>\<open>strings.SplitN(s, "/", 2)\<close>: at most two substrings, cut at the first separator; the
  second is the unsplit remainder.
\<close>

definition SplitN2 :: "string \<Rightarrow> string list" where
  "SplitN2 s =
     (if CHR ''/'' \<in> set s
      then [takeWhile (\<lambda>c. c \<noteq> CHR ''/'') s, tl (dropWhile (\<lambda>c. c \<noteq> CHR ''/'') s)]
      else [s])"

subsection \<open>Package path/filepath\<close>

text \<open>
  \<^verbatim>\<open>filepath.Clean\<close> on a Unix host, by the four rules of its documentation: runs of
  separators become one, every \<^verbatim>\<open>.\<close> element goes, every inner \<^verbatim>\<open>..\<close> goes together with
  the element before it, and a \<^verbatim>\<open>..\<close> that begins a rooted path goes.  The empty result is
  \<^verbatim>\<open>.\<close>.  \<open>path_elems\<close> cuts the path at every separator; \<open>clean_elems\<close> is the loop
  over the elements, \<open>out\<close> being the elements written so far, last one first.
\<close>

fun path_elems :: "string \<Rightarrow> string list" where
  "path_elems [] = [[]]"
| "path_elems (c # cs) =
     (if c = CHR ''/'' then [] # path_elems cs
      else (case path_elems cs of [] \<Rightarrow> [[c]] | e # es \<Rightarrow> (c # e) # es))"

fun join_elems :: "string list \<Rightarrow> string" where
  "join_elems [] = []"
| "join_elems [e] = e"
| "join_elems (e # es) = e @ CHR ''/'' # join_elems es"

fun clean_elems :: "bool \<Rightarrow> string list \<Rightarrow> string list \<Rightarrow> string list" where
  "clean_elems rooted out [] = rev out"
| "clean_elems rooted out (e # es) =
     (if e = [] \<or> e = ''.'' then clean_elems rooted out es
      else if e = ''..'' then
        (case out of
           [] \<Rightarrow> if rooted then clean_elems rooted [] es else clean_elems rooted [''..''] es
         | t # out' \<Rightarrow>
             if t = ''..'' then clean_elems rooted (''..'' # out) es
             else clean_elems rooted out' es)
      else clean_elems rooted (e # out) es)"

definition Clean :: "string \<Rightarrow> string" where
  "Clean path =
     (if path = [] then ''.''
      else let rooted = (hd path = CHR ''/'');
               out = clean_elems rooted [] (path_elems path)
           in if rooted then CHR ''/'' # join_elems out
              else if out = [] then ''.'' else join_elems out)"

text \<open>
  An element of a normalized path: not empty, neither \<^verbatim>\<open>.\<close> nor \<^verbatim>\<open>..\<close>, and without a
  separator.  A rooted path built from such elements is left as it is by \<open>Clean\<close>.
\<close>

definition path_elem :: "string \<Rightarrow> bool" where
  "path_elem e = (e \<noteq> [] \<and> e \<noteq> ''.'' \<and> e \<noteq> ''..'' \<and> CHR ''/'' \<notin> set e)"

subsection \<open>Packages crypto/sha256 and encoding/hex\<close>

text \<open>
  \<^verbatim>\<open>sha256.Sum256\<close> (FIPS 180-4) over 32-bit words, and \<^verbatim>\<open>hex.EncodeToString\<close> with its
  lower-case digit table.
\<close>

type_synonym w32 = "32 word"

type_synonym sha_state =
  "w32 \<times> w32 \<times> w32 \<times> w32 \<times> w32 \<times> w32 \<times> w32 \<times> w32"

text \<open>A 32-bit constant from its two halves.\<close>

definition hl :: "w32 \<Rightarrow> w32 \<Rightarrow> w32" where
  "hl h l = push_bit 16 h OR l"

definition sha256_K :: "w32 list" where
  "sha256_K = [
   hl 0x428a 0x2f98, hl 0x7137 0x4491, hl 0xb5c0 0xfbcf, hl 0xe9b5 0xdba5,
   hl 0x3956 0xc25b, hl 0x59f1 0x11f1, hl 0x923f 0x82a4, hl 0xab1c 0x5ed5,
   hl 0xd807 0xaa98, hl 0x1283 0x5b01, hl 0x2431 0x85be, hl 0x550c 0x7dc3,
   hl 0x72be 0x5d74, hl 0x80de 0xb1fe, hl 0x9bdc 0x06a7, hl 0xc19b 0xf174,
   hl 0xe49b 0x69c1, hl 0xefbe 0x4786, hl 0x0fc1 0x9dc6, hl 0x240c 0xa1cc,
   hl 0x2de9 0x2c6f, hl 0x4a74 0x84aa, hl 0x5cb0 0xa9dc, hl 0x76f9 0x88da,
   hl 0x983e 0x5152, hl 0xa831 0xc66d, hl 0xb003 0x27c8, hl 0xbf59 0x7fc7,
   hl 0xc6e0 0x0bf3, hl 0xd5a7 0x9147, hl 0x06ca 0x6351, hl 0x1429 0x2967,
   hl 0x27b7 0x0a85, hl 0x2e1b 0x2138, hl 0x4d2c 0x6dfc, hl 0x5338 0x0d13,
   hl 0x650a 0x7354, hl 0x766a 0x0abb, hl 0x81c2 0xc92e, hl 0x9272 0x2c85,
   hl 0xa2bf 0xe8a1, hl 0xa81a 0x664b, hl 0xc24b 0x8b70, hl 0xc76c 0x51a3,
   hl 0xd192 0xe819, hl 0xd699 0x0624, hl 0xf40e 0x3585, hl 0x106a 0xa070,
   hl 0x19a4 0xc116, hl 0x1e37 0x6c08, hl 0x2748 0x774c, hl 0x34b0 0xbcb5,
   hl 0x391c 0x0cb3, hl 0x4ed8 0xaa4a, hl 0x5b9c 0xca4f, hl 0x682e 0x6ff3,
   hl 0x748f 0x82ee, hl 0x78a5 0x636f, hl 0x84c8 0x7814, hl 0x8cc7 0x0208,
   hl 0x90be 0xfffa, hl 0xa450 0x6ceb, hl 0xbef9 0xa3f7, hl 0xc671 0x78f2]"

definition sha256_init :: sha_state where
  "sha256_init = (hl 0x6a09 0xe667, hl 0xbb67 0xae85, hl 0x3c6e 0xf372, hl 0xa54f 0xf53a,
                  hl 0x510e 0x527f, hl 0x9b05 0x688c, hl 0x1f83 0xd9ab, hl 0x5be0 0xcd19)"

definition rotr :: "nat \<Rightarrow> w32 \<Rightarrow> w32" where
  "rotr n w = drop_bit n w OR push_bit (32 - n) w"

definition be_word :: "bytes \<Rightarrow> w32" where
  "be_word bs = foldl (\<lambda>acc b. push_bit 8 acc OR ucast b) 0 bs"

definition word_bytes :: "w32 \<Rightarrow> bytes" where
  "word_bytes w = [ucast (drop_bit 24 w), ucast (drop_bit 16 w), ucast (drop_bit 8 w), ucast w]"

definition len_bytes :: "64 word \<Rightarrow> bytes" where
  "len_bytes n = map (\<lambda>i. ucast (drop_bit (56 - 8 * i) n)) [0..<8]"

definition sha256_pad :: "bytes \<Rightarrow> bytes" where
  "sha256_pad m =
     (let l = length m
      in m @ [0x80] @ replicate ((119 - l mod 64) mod 64) 0 @ len_bytes (8 * of_nat l))"

fun chunks_of :: "nat \<Rightarrow> 'a list \<Rightarrow> 'a list list" where
  "chunks_of n [] = []"
| "chunks_of n (x # xs) =
     (if n = 0 then [] else take n (x # xs) # chunks_of n (drop n (x # xs)))"

fun sha256_extend :: "nat \<Rightarrow> w32 list \<Rightarrow> w32 list" where
  "sha256_extend 0 w = w"
| "sha256_extend (Suc k) w =
     (let i = length w;
          a = w ! (i - 15); b = w ! (i - 2);
          s0 = rotr 7 a XOR rotr 18 a XOR drop_bit 3 a;
          s1 = rotr 17 b XOR rotr 19 b XOR drop_bit 10 b
      in sha256_extend k (w @ [w ! (i - 16) + s0 + w ! (i - 7) + s1]))"

definition sha256_round :: "sha_state \<Rightarrow> w32 \<times> w32 \<Rightarrow> sha_state" where
  "sha256_round st kw =
     (case st of (a, b, c, d, e, f, g, h) \<Rightarrow>
      let S1 = rotr 6 e XOR rotr 11 e XOR rotr 25 e;
          ch = (e AND f) XOR (NOT e AND g);
          t1 = h + S1 + ch + fst kw + snd kw;
          S0 = rotr 2 a XOR rotr 13 a XOR rotr 22 a;
          maj = (a AND b) XOR (a AND c) XOR (b AND c);
          t2 = S0 + maj
      in (t1 + t2, a, b, c, d + t1, e, f, g))"

definition sha_add :: "sha_state \<Rightarrow> sha_state \<Rightarrow> sha_state" where
  "sha_add s t =
     (case s of (a, b, c, d, e, f, g, h) \<Rightarrow>
      case t of (a', b', c', d', e', f', g', h') \<Rightarrow>
        (a + a', b + b', c + c', d + d', e + e', f + f', g + g', h + h'))"

definition sha_words :: "sha_state \<Rightarrow> w32 list" where
  "sha_words s = (case s of (a, b, c, d, e, f, g, h) \<Rightarrow> [a, b, c, d, e, f, g, h])"

definition sha256_block :: "sha_state \<Rightarrow> bytes \<Rightarrow> sha_state" where
  "sha256_block st blk =
     (let w = sha256_extend 48 (map be_word (chunks_of 4 blk))
      in sha_add st (foldl sha256_round st (zip sha256_K w)))"

definition Sum256 :: "bytes \<Rightarrow> bytes" where
  "Sum256 data =
     concat (map word_bytes (sha_words
       (foldl sha256_block sha256_init (chunks_of 64 (sha256_pad data)))))"

definition hextable :: string where
  "hextable = ''0123456789abcdef''"

definition EncodeToString :: "bytes \<Rightarrow> string" where
  "EncodeToString src =
     concat (map (\<lambda>v. [hextable ! unat (drop_bit 4 v), hextable ! unat (v AND 0x0f)]) src)"

section \<open>Data model of the vectorfs plugin\<close>

text \<open>The task a write hands to the index workers (\<^verbatim>\<open>indexTask\<close> of vectorfs.go).\<close>

record indexTask =
  task_namespace :: string
  task_digest :: string
  task_fileName :: string
  task_data :: string

text \<open>One row of a namespace's files table (\<^verbatim>\<open>FileMetadata\<close> as indexer.go fills it).\<close>

record FileMetadata =
  FileDigest :: string
  FileName :: string
  S3Key :: string
  FileSize :: int
  CreatedAt :: nat
  UpdatedAt :: nat

record MetaData =
  MetaName :: string
  MetaType :: string

record FileInfo =
  Name :: string
  Size :: int
  Mode :: "32 word"
  ModTime :: nat
  IsDir :: bool
  Meta :: MetaData

text \<open>
  A hit of the database's vector search and the result \<^verbatim>\<open>CustomGrep\<close> returns.  \<open>'f\<close> is
  Go's \<^verbatim>\<open>float64\<close>, whose arithmetic stays outside the model.
\<close>

record 'f VectorMatch =
  MatchFileName :: string
  ChunkIndex :: int
  ChunkText :: string
  Distance :: 'f

record 'f CustomGrepResult =
  File :: string
  Line :: int
  Content :: string
  Metadata :: "(string \<times> 'f) list"

text \<open>
  Modelled from the spec: the \<^verbatim>\<open>filesystem.WriteFlag\<close> bitset (package filesystem is not
  part of the sources).  A flag value is the set of its bits; \<^verbatim>\<open>WriteFlagNone\<close> is the
  empty set, \<^verbatim>\<open>a | b\<close> the union and \<^verbatim>\<open>flags & b != 0\<close> membership.
\<close>

datatype flag = WriteFlagCreate | WriteFlagExclusive | WriteFlagTruncate | WriteFlagAppend

type_synonym WriteFlag = "flag set"

definition WriteFlagNone :: WriteFlag where
  "WriteFlagNone = {}"

text \<open>
  An index worker is at its \<^verbatim>\<open>select\<close>, inside \<^verbatim>\<open>IndexDocument\<close> with a task, or has
  returned.  \<^verbatim>\<open>Shutdown\<close> is followed through its three statements.
\<close>

datatype worker = Selecting | Indexing indexTask | Returned

datatype shutdown_pc = NotCalled | SignalClosed | QueueClosed | Joined

text \<open>
  The plugin with everything it owns.  The object store and the database are the
  external services behind \<^verbatim>\<open>s3Client\<close> and \<^verbatim>\<open>tidbClient\<close>: the objects by key, and
  for every namespace that has tables the rows of its files table in insertion order.
  \<open>indexQueue\<close> is the content of the buffered channel, \<open>senders\<close> the tasks of the
  detached goroutines blocked in \<^verbatim>\<open>indexQueue <- task\<close>.  \<open>enqueued\<close> and \<open>indexed\<close> are
  history: the tasks the channel has accepted and the tasks a worker has finished.
\<close>

record VectorFSPlugin =
  s3KeyPrefix :: string
  s3Reachable :: bool
  s3Objects :: "string \<rightharpoonup> bytes"
  tidbTables :: "string \<rightharpoonup> FileMetadata list"
  indexQueue :: "indexTask list"
  queueClosed :: bool
  shutdownClosed :: bool
  senders :: "indexTask list"
  workers :: "worker list"
  shutdownCall :: shutdown_pc
  panicked :: bool
  enqueued :: "indexTask list"
  indexed :: "indexTask list"

section \<open>The services behind the clients\<close>

text \<open>
  Modelled from the spec: \<^verbatim>\<open>S3Client.buildKey\<close>, \<^verbatim>\<open>UploadDocument\<close> and
  \<^verbatim>\<open>DownloadDocument\<close> (s3_client.go is not part of the sources).  File keys are
  \<^verbatim>\<open><prefix>/<namespace>/<digest>\<close>; an upload puts the whole object under its key.
\<close>

definition buildKey :: "VectorFSPlugin \<Rightarrow> string \<Rightarrow> string \<Rightarrow> string" where
  "buildKey v namespace digest = s3KeyPrefix v @ ''/'' @ namespace @ ''/'' @ digest"

definition UploadDocument ::
  "VectorFSPlugin \<Rightarrow> string \<Rightarrow> string \<Rightarrow> bytes \<Rightarrow> VectorFSPlugin \<times> error option" where
  "UploadDocument v namespace digest content =
     (if s3Reachable v
      then (v\<lparr>s3Objects := (s3Objects v)(buildKey v namespace digest \<mapsto> content)\<rparr>, None)
      else (v, Some (Err ''object store unavailable'')))"

definition DownloadDocument :: "VectorFSPlugin \<Rightarrow> string \<Rightarrow> string \<Rightarrow> error + bytes" where
  "DownloadDocument v namespace digest =
     (if \<not> s3Reachable v then Inl (Err ''object store unavailable'')
      else case s3Objects v (buildKey v namespace digest) of
             None \<Rightarrow> Inl (Err ''no such key'')
           | Some content \<Rightarrow> Inr content)"

text \<open>
  Modelled from the spec: the methods of \<^verbatim>\<open>TiDBClient\<close> (tidb_client.go is not part of the
  sources).  A namespace is a set of tables; the files table has the digest as its
  unique key, so inserting a digest that is present updates the row's filename and
  update time and adds no row.  A query on a namespace without tables is a database
  error.  \<^verbatim>\<open>DeleteNamespace\<close> drops the namespace's tables.
\<close>

definition FileExists :: "VectorFSPlugin \<Rightarrow> string \<Rightarrow> string \<Rightarrow> error + bool" where
  "FileExists v namespace digest =
     (case tidbTables v namespace of
        None \<Rightarrow> Inl (Err ''table does not exist'')
      | Some rows \<Rightarrow> Inr (digest \<in> set (map FileDigest rows)))"

fun upsert_row :: "FileMetadata \<Rightarrow> FileMetadata list \<Rightarrow> FileMetadata list" where
  "upsert_row m [] = [m]"
| "upsert_row m (r # rs) =
     (if FileDigest r = FileDigest m
      then r\<lparr>FileName := FileName m, UpdatedAt := UpdatedAt m\<rparr> # rs
      else r # upsert_row m rs)"

definition InsertFileMetadata ::
  "VectorFSPlugin \<Rightarrow> string \<Rightarrow> FileMetadata \<Rightarrow> VectorFSPlugin \<times> error option" where
  "InsertFileMetadata v namespace metadata =
     (case tidbTables v namespace of
        None \<Rightarrow> (v, Some (Err ''table does not exist''))
      | Some rows \<Rightarrow>
          (v\<lparr>tidbTables := (tidbTables v)(namespace \<mapsto> upsert_row metadata rows)\<rparr>, None))"

definition GetFileMetadataByName ::
  "VectorFSPlugin \<Rightarrow> string \<Rightarrow> string \<Rightarrow> error + FileMetadata" where
  "GetFileMetadataByName v namespace fileName =
     (case tidbTables v namespace of
        None \<Rightarrow> Inl (Err ''table does not exist'')
      | Some rows \<Rightarrow>
          (case filter (\<lambda>r. FileName r = fileName) rows of
             [] \<Rightarrow> Inl (Err ''file not found'')
           | r # _ \<Rightarrow> Inr r))"

definition NamespaceExists :: "VectorFSPlugin \<Rightarrow> string \<Rightarrow> error + bool" where
  "NamespaceExists v namespace = Inr (tidbTables v namespace \<noteq> None)"

definition DeleteNamespace :: "VectorFSPlugin \<Rightarrow> string \<Rightarrow> VectorFSPlugin \<times> error option" where
  "DeleteNamespace v namespace = (v\<lparr>tidbTables := (tidbTables v)(namespace := None)\<rparr>, None)"

text \<open>
  Modelled from the spec: \<^verbatim>\<open>plugin.ApplyRangeRead\<close> (package plugin is not part of the
  sources): the offset is clamped into \<open>[0, length]\<close>, a size of \<open>-1\<close> reads to the end,
  any other size is cut to what is left.
\<close>

definition ApplyRangeRead :: "bytes \<Rightarrow> int \<Rightarrow> int \<Rightarrow> error + bytes" where
  "ApplyRangeRead content offset sz =
     (let len = int (length content);
          off = (if offset < 0 then 0 else if len < offset then len else offset);
          n = (if sz = - 1 then len - off else min sz (len - off))
      in Inr (take (nat n) (drop (nat off) content)))"

section \<open>indexer.go\<close>

text \<open>
  \<^verbatim>\<open>Indexer.PrepareDocument\<close>: the synchronous phase.  \<open>now\<close> is the reading of
  \<^verbatim>\<open>time.Now()\<close>.  The result is \<^verbatim>\<open>(alreadyExists, err)\<close>.
\<close>

definition PrepareDocument ::
  "nat \<Rightarrow> VectorFSPlugin \<Rightarrow> string \<Rightarrow> string \<Rightarrow> string \<Rightarrow> string
     \<Rightarrow> VectorFSPlugin \<times> (error + bool)" where
  "PrepareDocument now v namespace digest fileName content =
     (case FileExists v namespace digest of
        Inl err \<Rightarrow> (v, Inl (Wrapped ''failed to check if file exists'' err))
      | Inr exists \<Rightarrow>
          if exists then (v, Inr True)
          else
            let s3Key = buildKey v namespace digest in
            (case UploadDocument v namespace digest (bytes_of_string content) of
               (v1, Some err) \<Rightarrow> (v1, Inl (Wrapped ''failed to upload to S3'' err))
             | (v1, None) \<Rightarrow>
                 let metadata = \<lparr>FileDigest = digest, FileName = fileName, S3Key = s3Key,
                                 FileSize = int (length content),
                                 CreatedAt = now, UpdatedAt = now\<rparr>
                 in (case InsertFileMetadata v1 namespace metadata of
                       (v2, Some err) \<Rightarrow> (v2, Inl (Wrapped ''failed to insert file metadata'' err))
                     | (v2, None) \<Rightarrow> (v2, Inr False))))"

section \<open>vectorfs.go\<close>

text \<open>\<^verbatim>\<open>GetReadme\<close>: the text of the synthetic README.\<close>

definition GetReadme :: string where
  \<open>GetReadme =
     ''VectorFS Plugin - Document Vector Search\<newline>'' @
     ''\<newline>'' @
     ''This plugin provides semantic search capabilities for documents using:\<newline>'' @
     ''- S3 for document storage\<newline>'' @
     ''- TiDB Cloud vector index for fast similarity search\<newline>'' @
     ''- OpenAI embeddings (default)\<newline>'' @
     ''\<newline>'' @
     ''STRUCTURE:\<newline>'' @
     ''  /vectorfs/\<newline>'' @
     ''    README              - This documentation\<newline>'' @
     ''    <namespace>/        - Project/namespace directory\<newline>'' @
     ''      docs/             - Document directory (auto-indexed on write)\<newline>'' @
     ''      .indexing         - Indexing status (virtual file)\<newline>'' @
     ''\<newline>'' @
     ''WORKFLOW:\<newline>'' @
     ''  1. Create a namespace (project):\<newline>'' @
     ''     mkdir /vectorfs/my_project\<newline>'' @
     ''\<newline>'' @
     ''  2. Write documents (will be auto-indexed):\<newline>'' @
     ''     echo "content" > /vectorfs/my_project/docs/document.txt\<newline>'' @
     ''\<newline>'' @
     ''  3. Search documents using grep:\<newline>'' @
     ''     grep 'how to deploy' /vectorfs/my_project/docs\<newline>'' @
     ''\<newline>'' @
     ''     This will perform vector similarity search and return relevant chunks.\<newline>'' @
     ''\<newline>'' @
     ''  4. Read indexed documents:\<newline>'' @
     ''     cat /vectorfs/my_project/docs/document.txt\<newline>'' @
     ''\<newline>'' @
     ''CONFIGURATION:\<newline>'' @
     ''  [plugins.vectorfs]\<newline>'' @
     ''  enabled = true\<newline>'' @
     ''  path = "/vectorfs"\<newline>'' @
     ''\<newline>'' @
     ''    [plugins.vectorfs.config]\<newline>'' @
     ''    # S3 Storage\<newline>'' @
     ''    s3_bucket = "my-docs"\<newline>'' @
     ''    s3_key_prefix = "vectorfs"\<newline>'' @
     ''    s3_region = "us-east-1"\<newline>'' @
     ''    s3_access_key = "..."\<newline>'' @
     ''    s3_secret_key = "..."\<newline>'' @
     ''\<newline>'' @
     ''    # TiDB Cloud Vector Database\<newline>'' @
     ''    tidb_dsn = "user:pass@tcp(host:4000)/dbname?tls=true"\<newline>'' @
     ''\<newline>'' @
     ''    # Embeddings\<newline>'' @
     ''    embedding_provider = "openai"\<newline>'' @
     ''    openai_api_key = "sk-..."\<newline>'' @
     ''    embedding_model = "text-embedding-3-small"\<newline>'' @
     ''    embedding_dim = 1536\<newline>'' @
     ''\<newline>'' @
     ''    # Chunking (optional)\<newline>'' @
     ''    chunk_size = 512\<newline>'' @
     ''    chunk_overlap = 50\<newline>'' @
     ''\<newline>'' @
     ''FEATURES:\<newline>'' @
     ''  - Automatic indexing on file write\<newline>'' @
     ''  - Deduplication using file digest (SHA256)\<newline>'' @
     ''  - Semantic search via grep command\<newline>'' @
     ''  - S3 storage for scalability\<newline>'' @
     ''  - TiDB Cloud vector index for fast search\<newline>'' @
     ''\<newline>'' @
     ''NOTES:\<newline>'' @
     ''  - Files are automatically indexed when written to docs/ directory\<newline>'' @
     ''  - Same content (same digest) won't be indexed twice\<newline>'' @
     ''  - grep command performs vector similarity search\<newline>'' @
     ''  - Results include file path, chunk text, and relevance score\<newline>''\<close>

text \<open>\<^verbatim>\<open>parsePath\<close>: \<^verbatim>\<open>"/namespace/docs/file.txt"\<close> becomes \<^verbatim>\<open>(namespace, "docs/file.txt")\<close>.\<close>

definition parsePath :: "string \<Rightarrow> error + (string \<times> string)" where
  "parsePath path0 =
     (let path = TrimPrefix (Clean path0) ''/'' in
      if path = [] \<or> path = ''.'' then Inr ([], [])
      else case SplitN2 path of
             [] \<Rightarrow> Inl (Err ''invalid path'')
           | [namespace] \<Rightarrow> Inr (namespace, [])
           | namespace # relativePath # _ \<Rightarrow> Inr (namespace, relativePath))"

definition Create :: "VectorFSPlugin \<Rightarrow> string \<Rightarrow> VectorFSPlugin \<times> error option" where
  "Create v path = (v, None)"

definition Remove :: "VectorFSPlugin \<Rightarrow> string \<Rightarrow> VectorFSPlugin \<times> error option" where
  "Remove v path =
     (v, Some (Err ''remove not supported in vectorfs (use rm -r to delete entire namespace)''))"

definition RemoveAll :: "VectorFSPlugin \<Rightarrow> string \<Rightarrow> VectorFSPlugin \<times> error option" where
  "RemoveAll v path =
     (case parsePath path of
        Inl err \<Rightarrow> (v, Some err)
      | Inr (namespace, relativePath) \<Rightarrow>
          if relativePath \<noteq> [] then
            (v, Some (Err (''can only remove entire namespace, not subdirectories (path: ''
                           @ path @ '')'')))
          else if namespace = [] then (v, Some (Err ''cannot remove root directory''))
          else DeleteNamespace v namespace)"

definition Read :: "VectorFSPlugin \<Rightarrow> string \<Rightarrow> int \<Rightarrow> int \<Rightarrow> error + bytes" where
  "Read v path offset sz =
     (if path = ''/README'' then ApplyRangeRead (bytes_of_string GetReadme) offset sz
      else case parsePath path of
        Inl err \<Rightarrow> Inl err
      | Inr (namespace, relativePath) \<Rightarrow>
          if relativePath = ''.indexing'' then Inr (bytes_of_string ''idle'')
          else if \<not> HasPrefix relativePath ''docs/'' then
            Inl (Err ''can only read files from docs/ directory'')
          else
            let fileName = TrimPrefix relativePath ''docs/'' in
            if fileName = [] \<or> fileName = ''/'' then
              Inl (Err ''cannot read directory, specify a file'')
            else case GetFileMetadataByName v namespace fileName of
              Inl err \<Rightarrow> Inl (Wrapped ''failed to get file metadata'' err)
            | Inr meta \<Rightarrow>
                (case DownloadDocument v namespace (FileDigest meta) of
                   Inl err \<Rightarrow> Inl (Wrapped ''failed to download document from S3'' err)
                 | Inr content \<Rightarrow> ApplyRangeRead content offset sz))"

text \<open>
  \<^verbatim>\<open>Write\<close>.  The \<^verbatim>\<open>select\<close> with a \<^verbatim>\<open>default\<close> arm sends when the channel (made with
  capacity 100 in \<^verbatim>\<open>Initialize\<close>) has room; otherwise the task goes to a new goroutine
  that blocks in the send.  A send on a closed channel panics.  Neither \<open>offset\<close> nor
  \<open>flags\<close> is read.
\<close>

definition queueCapacity :: nat where
  "queueCapacity = 100"

definition Write ::
  "VectorFSPlugin \<Rightarrow> string \<Rightarrow> bytes \<Rightarrow> int \<Rightarrow> WriteFlag \<Rightarrow> VectorFSPlugin \<times> (error + int)" where
  "Write v path content offset flags =
     (case parsePath path of
        Inl err \<Rightarrow> (v, Inl err)
      | Inr (namespace, relativePath) \<Rightarrow>
          if \<not> HasPrefix relativePath ''docs/'' then
            (v, Inl (Err ''can only write files to docs/ directory''))
          else
            let hash = Sum256 content;
                digest = EncodeToString hash;
                fileName = TrimPrefix relativePath ''docs/'';
                task = \<lparr>task_namespace = namespace, task_digest = digest,
                        task_fileName = fileName, task_data = string_of_bytes content\<rparr>
            in if queueClosed v then
                 (v\<lparr>panicked := True\<rparr>, Inl (Panic ''send on closed channel''))
               else if length (indexQueue v) < queueCapacity then
                 (v\<lparr>indexQueue := indexQueue v @ [task], enqueued := enqueued v @ [task]\<rparr>,
                  Inr (int (length content)))
               else
                 (v\<lparr>senders := senders v @ [task]\<rparr>, Inr (int (length content))))"

text \<open>\<^verbatim>\<open>Stat\<close>; \<open>now\<close> is the reading of \<^verbatim>\<open>time.Now()\<close>.  Modes are 0755 and 0444.\<close>

definition PluginName :: string where
  "PluginName = ''vectorfs''"

definition Stat :: "nat \<Rightarrow> VectorFSPlugin \<Rightarrow> string \<Rightarrow> error + FileInfo" where
  "Stat now v path =
     (if path = ''/'' then
        Inr \<lparr>Name = ''/'', Size = 0, Mode = 493, ModTime = now, IsDir = True,
             Meta = \<lparr>MetaName = PluginName, MetaType = ''root''\<rparr>\<rparr>
      else if path = ''/README'' then
        Inr \<lparr>Name = ''README'', Size = int (length GetReadme), Mode = 292, ModTime = now,
             IsDir = False, Meta = \<lparr>MetaName = PluginName, MetaType = ''doc''\<rparr>\<rparr>
      else case parsePath path of
        Inl err \<Rightarrow> Inl err
      | Inr (namespace, relativePath) \<Rightarrow>
          if relativePath = [] then
            (case NamespaceExists v namespace of
               Inl err \<Rightarrow> Inl ErrNotFound
             | Inr exists \<Rightarrow>
                 if \<not> exists then Inl ErrNotFound
                 else Inr \<lparr>Name = namespace, Size = 0, Mode = 493, ModTime = now, IsDir = True,
                           Meta = \<lparr>MetaName = PluginName, MetaType = ''namespace''\<rparr>\<rparr>)
          else if relativePath = ''docs'' then
            Inr \<lparr>Name = ''docs'', Size = 0, Mode = 493, ModTime = now, IsDir = True,
                 Meta = \<lparr>MetaName = PluginName, MetaType = ''docs''\<rparr>\<rparr>
          else if relativePath = ''.indexing'' then
            Inr \<lparr>Name = ''.indexing'', Size = 4, Mode = 292, ModTime = now, IsDir = False,
                 Meta = \<lparr>MetaName = PluginName, MetaType = ''status''\<rparr>\<rparr>
          else Inl ErrNotFound)"

text \<open>
  \<^verbatim>\<open>CustomGrep\<close> and \<^verbatim>\<open>VectorSearch\<close>.  The embedding service and the database's
  nearest-neighbour query are the parameters \<open>GenerateEmbedding\<close> and \<open>tidbVectorSearch\<close>;
  \<open>one_minus\<close> is \<^verbatim>\<open>1.0 - d\<close> on \<^verbatim>\<open>float64\<close>.
\<close>

definition VectorSearch ::
  "(string \<Rightarrow> error + 'e) \<Rightarrow> (string \<Rightarrow> 'e \<Rightarrow> nat \<Rightarrow> error + 'f VectorMatch list)
     \<Rightarrow> ('f \<Rightarrow> 'f) \<Rightarrow> string \<Rightarrow> string \<Rightarrow> error + 'f CustomGrepResult list" where
  "VectorSearch GenerateEmbedding tidbVectorSearch one_minus namespace query =
     (case GenerateEmbedding query of
        Inl err \<Rightarrow> Inl (Wrapped ''failed to generate query embedding'' err)
      | Inr queryEmbedding \<Rightarrow>
          (case tidbVectorSearch namespace queryEmbedding 10 of
             Inl err \<Rightarrow> Inl (Wrapped ''failed to perform vector search'' err)
           | Inr results \<Rightarrow>
               Inr (map (\<lambda>result.
                      \<lparr>File = namespace @ ''/docs/'' @ MatchFileName result,
                       Line = ChunkIndex result + 1,
                       Content = ChunkText result,
                       Metadata = [(''distance'', Distance result),
                                   (''score'', one_minus (Distance result))]\<rparr>) results)))"

definition CustomGrep ::
  "(string \<Rightarrow> error + 'e) \<Rightarrow> (string \<Rightarrow> 'e \<Rightarrow> nat \<Rightarrow> error + 'f VectorMatch list)
     \<Rightarrow> ('f \<Rightarrow> 'f) \<Rightarrow> string \<Rightarrow> string \<Rightarrow> error + 'f CustomGrepResult list" where
  "CustomGrep GenerateEmbedding tidbVectorSearch one_minus path query =
     (case parsePath path of
        Inl err \<Rightarrow> Inl err
      | Inr (namespace, relativePath) \<Rightarrow>
          if \<not> HasPrefix relativePath ''docs'' \<and> relativePath \<noteq> ''docs'' then
            Inl (Err ''vector search only supported in docs/ directory'')
          else VectorSearch GenerateEmbedding tidbVectorSearch one_minus namespace query)"

section \<open>The index workers and Shutdown\<close>

text \<open>
  \<^verbatim>\<open>Indexer.IndexDocument\<close>, as a worker calls it: the prepare phase, then
  \<^verbatim>\<open>IndexChunks\<close> unless the document already exists.  \<^verbatim>\<open>IndexChunks\<close> writes chunk rows
  only, which this model does not hold, and the worker does nothing with the error but
  log it; so the state after the call is the state after the prepare phase.
\<close>

definition IndexDocument ::
  "nat \<Rightarrow> VectorFSPlugin \<Rightarrow> string \<Rightarrow> string \<Rightarrow> string \<Rightarrow> string
     \<Rightarrow> VectorFSPlugin \<times> error option" where
  "IndexDocument now v namespace digest fileName content =
     (case PrepareDocument now v namespace digest fileName content of
        (v1, Inl err) \<Rightarrow> (v1, Some err)
      | (v1, Inr alreadyExists) \<Rightarrow> (v1, None))"

text \<open>
  \<^verbatim>\<open>Initialize\<close>: the clients are connected to the services as they are found, the channel
  is made empty with its capacity of 100, and \<open>workerCount\<close> workers start at their
  \<^verbatim>\<open>select\<close> (none when the configured count is not positive).
\<close>

definition Initialize ::
  "string \<Rightarrow> (string \<rightharpoonup> bytes) \<Rightarrow> (string \<rightharpoonup> FileMetadata list) \<Rightarrow> int \<Rightarrow> VectorFSPlugin" where
  "Initialize keyPrefix objects tables workerCount =
     \<lparr>s3KeyPrefix = keyPrefix, s3Reachable = True, s3Objects = objects, tidbTables = tables,
      indexQueue = [], queueClosed = False, shutdownClosed = False, senders = [],
      workers = replicate (nat workerCount) Selecting, shutdownCall = NotCalled,
      panicked = False, enqueued = [], indexed = []\<rparr>"

text \<open>
  The plugin runs as goroutines; a run is the list of the steps they take, in the order
  they take them.  A step that cannot be taken in a state (a receive from an empty open
  channel, a send into a full one, the join while a worker is running) gives \<open>None\<close>.

  \<^item> \<open>CallWrite\<close>: a caller's \<^verbatim>\<open>Write\<close>, which never waits.
  \<^item> \<open>SenderSends i\<close>: a detached goroutine's blocked send goes through.
  \<^item> \<open>WorkerReceives i\<close>: worker \<open>i\<close>'s \<^verbatim>\<open>select\<close> takes \<^verbatim>\<open>task := <-v.indexQueue\<close>; on
    a closed and empty channel the receive yields the zero task.
  \<^item> \<open>WorkerSeesShutdown i\<close>: worker \<open>i\<close>'s \<^verbatim>\<open>select\<close> takes \<^verbatim>\<open><-v.shutdown\<close>, which is
    ready once that channel is closed, and the worker returns.  When both arms are
    ready Go picks either.
  \<^item> \<open>WorkerFinishes i now\<close>: worker \<open>i\<close>'s \<^verbatim>\<open>IndexDocument\<close> call returns.
  \<^item> \<open>ShutdownClosesSignal\<close>, \<open>ShutdownClosesQueue\<close>, \<open>ShutdownJoins\<close>: the statements
    \<^verbatim>\<open>close(v.shutdown)\<close>, \<open>close(v.indexQueue)\<close> and \<open>v.workerWg.Wait()\<close> of
    \<^verbatim>\<open>Shutdown\<close>.  Closing the queue under a blocked sender makes that goroutine panic.
\<close>

datatype event =
    CallWrite string bytes int WriteFlag
  | SenderSends nat
  | WorkerReceives nat
  | WorkerSeesShutdown nat
  | WorkerFinishes nat nat
  | ShutdownClosesSignal
  | ShutdownClosesQueue
  | ShutdownJoins

definition zeroTask :: indexTask where
  "zeroTask = \<lparr>task_namespace = [], task_digest = [], task_fileName = [], task_data = []\<rparr>"

fun step :: "event \<Rightarrow> VectorFSPlugin \<Rightarrow> VectorFSPlugin option" where
  "step (CallWrite path content offset flags) v = Some (fst (Write v path content offset flags))"
| "step (SenderSends i) v =
     (if i < length (senders v) \<and> \<not> queueClosed v \<and> length (indexQueue v) < queueCapacity
      then Some (v\<lparr>indexQueue := indexQueue v @ [senders v ! i],
                   enqueued := enqueued v @ [senders v ! i],
                   senders := take i (senders v) @ drop (Suc i) (senders v)\<rparr>)
      else None)"
| "step (WorkerReceives i) v =
     (if i < length (workers v) \<and> workers v ! i = Selecting then
        (case indexQueue v of
           task # rest \<Rightarrow> Some (v\<lparr>indexQueue := rest, workers := (workers v)[i := Indexing task]\<rparr>)
         | [] \<Rightarrow>
             if queueClosed v then Some (v\<lparr>workers := (workers v)[i := Indexing zeroTask]\<rparr>)
             else None)
      else None)"
| "step (WorkerSeesShutdown i) v =
     (if i < length (workers v) \<and> workers v ! i = Selecting \<and> shutdownClosed v
      then Some (v\<lparr>workers := (workers v)[i := Returned]\<rparr>)
      else None)"
| "step (WorkerFinishes i now) v =
     (if i < length (workers v) then
        (case workers v ! i of
           Indexing task \<Rightarrow>
             let v1 = fst (IndexDocument now v (task_namespace task) (task_digest task)
                             (task_fileName task) (task_data task))
             in Some (v1\<lparr>workers := (workers v1)[i := Selecting], indexed := indexed v1 @ [task]\<rparr>)
         | _ \<Rightarrow> None)
      else None)"
| "step ShutdownClosesSignal v =
     (if shutdownCall v = NotCalled
      then Some (v\<lparr>shutdownClosed := True, shutdownCall := SignalClosed\<rparr>)
      else None)"
| "step ShutdownClosesQueue v =
     (if shutdownCall v = SignalClosed
      then Some (v\<lparr>queueClosed := True, shutdownCall := QueueClosed,
                   panicked := (panicked v \<or> senders v \<noteq> [])\<rparr>)
      else None)"
| "step ShutdownJoins v =
     (if shutdownCall v = QueueClosed \<and> list_all (\<lambda>w. w = Returned) (workers v)
      then Some (v\<lparr>shutdownCall := Joined\<rparr>)
      else None)"

text \<open>A run; nothing happens after a panic.\<close>

fun exec :: "event list \<Rightarrow> VectorFSPlugin \<Rightarrow> VectorFSPlugin option" where
  "exec [] v = Some v"
| "exec (e # es) v =
     (if panicked v then None
      else case step e v of None \<Rightarrow> None | Some v1 \<Rightarrow> exec es v1)"

text \<open>The tasks the workers hold inside \<^verbatim>\<open>IndexDocument\<close>.\<close>

fun in_flight :: "worker list \<Rightarrow> indexTask list" where
  "in_flight [] = []"
| "in_flight (Indexing task # ws) = task # in_flight ws"
| "in_flight (w # ws) = in_flight ws"

text \<open>
  What holds in every state of a run: the two channels are closed by \<^verbatim>\<open>Shutdown\<close> only and
  in its order, the join has seen every worker return, and a task the channel has
  accepted is in the channel, with a worker, or indexed.
\<close>

definition run_invariant :: "VectorFSPlugin \<Rightarrow> bool" where
  "run_invariant v =
     (shutdownClosed v = (shutdownCall v \<noteq> NotCalled)
      \<and> queueClosed v = (shutdownCall v = QueueClosed \<or> shutdownCall v = Joined)
      \<and> (shutdownCall v \<noteq> Joined \<or> list_all (\<lambda>w. w = Returned) (workers v))
      \<and> mset (enqueued v) \<subseteq># mset (indexQueue v @ in_flight (workers v) @ indexed v))"

section \<open>LocalBackend\<close>

text \<open>
  Modelled from the spec: the write of the local-disk backend (localfs.go is not part of
  the sources; only its tests are).  The backend's files are a map from the virtual path
  to the content; directories and the containment check of the path are left out.

  \<^item> \<^verbatim>\<open>Exclusive\<close> without \<^verbatim>\<open>Create\<close> is an error.
  \<^item> A missing file is created under \<^verbatim>\<open>Create\<close>, and under the compatibility clause
    (flags \<^verbatim>\<open>None\<close>, offset \<open>-1\<close>); any other write to it is an error.
  \<^item> \<^verbatim>\<open>Create\<close> with \<^verbatim>\<open>Exclusive\<close> fails on a file that exists; \<^verbatim>\<open>Truncate\<close> sets the
    length to 0 before writing.
  \<^item> \<^verbatim>\<open>Append\<close> writes at the current length whatever the offset; offset \<open>-1\<close> writes from
    the beginning under \<^verbatim>\<open>Create\<close> or \<^verbatim>\<open>Truncate\<close> and at the current end otherwise.
  \<^item> An offset beyond the current length extends the file with zero bytes first.
  \<^item> The result is the number of bytes written.

  The spec gives an offset below \<open>-1\<close> no meaning; here it is an invalid argument.
\<close>

datatype error_kind = not_found | already_exists | invalid_argument

definition write_at :: "bytes \<Rightarrow> nat \<Rightarrow> bytes \<Rightarrow> bytes" where
  "write_at old pos content =
     take pos (old @ replicate (pos - length old) 0) @ content @ drop (pos + length content) old"

definition write_position :: "bytes \<Rightarrow> int \<Rightarrow> WriteFlag \<Rightarrow> nat" where
  "write_position base offset flags =
     (if WriteFlagAppend \<in> flags then length base
      else if offset = - 1 then
        (if WriteFlagCreate \<in> flags \<or> WriteFlagTruncate \<in> flags then 0 else length base)
      else nat offset)"

definition LocalFS_Write ::
  "(string \<rightharpoonup> bytes) \<Rightarrow> string \<Rightarrow> bytes \<Rightarrow> int \<Rightarrow> WriteFlag
     \<Rightarrow> (string \<rightharpoonup> bytes) \<times> (error_kind + int)" where
  "LocalFS_Write fs path content offset flags =
     (if WriteFlagExclusive \<in> flags \<and> WriteFlagCreate \<notin> flags then
        (fs, Inl invalid_argument)
      else if offset < - 1 then (fs, Inl invalid_argument)
      else case fs path of
        None \<Rightarrow>
          if WriteFlagCreate \<in> flags \<or> (flags = WriteFlagNone \<and> offset = - 1) then
            (fs(path \<mapsto> write_at [] (write_position [] offset flags) content),
             Inr (int (length content)))
          else (fs, Inl not_found)
      | Some old \<Rightarrow>
          if WriteFlagCreate \<in> flags \<and> WriteFlagExclusive \<in> flags then
            (fs, Inl already_exists)
          else
            let base = (if WriteFlagTruncate \<in> flags then [] else old)
            in (fs(path \<mapsto> write_at base (write_position base offset flags) content),
                Inr (int (length content))))"

text \<open>Modelled from the spec: a read of the whole file, \<^verbatim>\<open>read(path, 0, -1)\<close>.\<close>

definition LocalFS_ReadAll :: "(string \<rightharpoonup> bytes) \<Rightarrow> string \<Rightarrow> error_kind + bytes" where
  "LocalFS_ReadAll fs path = (case fs path of None \<Rightarrow> Inl not_found | Some content \<Rightarrow> Inr content)"

section \<open>Facts about the library functions\<close>

lemma bytes_of_string_inverse: "bytes_of_string (string_of_bytes b) = b"
proof -
  have "of_char (char_of (unat v)) = v" for v :: "8 word"
  proof -
    have "(of_char (char_of (unat v)) :: nat) = unat v mod 256"
      by (rule of_char_of)
    also have "\<dots> = unat v"
      using unsigned_less [of v, where 'a = nat] by simp
    finally have "(of_char (char_of (unat v)) :: nat) = unat v" .
    then have "(of_nat (of_char (char_of (unat v))) :: 8 word) = of_nat (unat v)" by simp
    then show ?thesis by (simp only: of_nat_of_char of_nat_unat ucast_id)
  qed
  then show ?thesis
    by (simp add: bytes_of_string_def string_of_bytes_def map_idI)
qed

lemma string_of_bytes_inverse: "string_of_bytes (bytes_of_string s) = s"
proof -
  have "char_of (unat (of_char c :: 8 word)) = c" for c
  proof -
    have "(of_char c :: 8 word) = of_nat (of_char c)"
      by (simp only: of_nat_of_char)
    then have "unat (of_char c :: 8 word) = (of_char c :: nat) mod 256"
      by (simp add: unat_of_nat)
    then show ?thesis by simp
  qed
  then show ?thesis
    by (simp add: bytes_of_string_def string_of_bytes_def map_idI)
qed

lemma HasPrefix_append: "HasPrefix (p @ s) p"
  by (simp add: HasPrefix_def)

lemma TrimPrefix_append: "TrimPrefix (p @ s) p = s"
  by (simp add: TrimPrefix_def HasPrefix_def)

lemma SplitN2_first_sep:
  "CHR ''/'' \<notin> set ns \<Longrightarrow> SplitN2 (ns @ CHR ''/'' # rel) = [ns, rel]"
proof -
  assume a: "CHR ''/'' \<notin> set ns"
  have "takeWhile (\<lambda>c. c \<noteq> CHR ''/'') (ns @ CHR ''/'' # rel) = ns"
    using a by (induction ns) auto
  moreover have "dropWhile (\<lambda>c. c \<noteq> CHR ''/'') (ns @ CHR ''/'' # rel) = CHR ''/'' # rel"
    using a by (induction ns) auto
  ultimately show ?thesis by (simp add: SplitN2_def)
qed

lemma length_Sum256: "length (Sum256 content) = 32"
proof -
  obtain a b c d e f g h where
    "foldl sha256_block sha256_init (chunks_of 64 (sha256_pad content)) = (a, b, c, d, e, f, g, h)"
    by (metis prod_cases3)
  then show ?thesis
    by (simp add: Sum256_def sha_words_def word_bytes_def)
qed

lemma hexdigit_in_table:
  fixes n :: nat
  assumes "n < 16"
  shows "hextable ! n \<in> set hextable"
proof -
  have "length hextable = 16" by (simp add: hextable_def)
  with assms show ?thesis by (simp only: nth_mem)
qed

lemma EncodeToString_hex: "set (EncodeToString src) \<subseteq> set hextable"
proof -
  have hi: "unat (drop_bit 4 v) < 16" for v :: "8 word"
  proof -
    have "unat (drop_bit 4 v) = unat v div 16"
      by (simp add: drop_bit_eq_div unat_div)
    moreover have "unat v < 256"
      using unsigned_less [of v, where 'a = nat] by simp
    ultimately show ?thesis by simp
  qed
  have lo: "unat (v AND 0x0f) < 16" for v :: "8 word"
  proof -
    have "v AND 0x0f \<le> 0x0f" by (rule word_and_le1)
    then have "unat (v AND 0x0f) \<le> unat (0x0f :: 8 word)" by (simp add: word_le_nat_alt)
    then show ?thesis by simp
  qed
  show ?thesis
    using hi lo by (auto simp: EncodeToString_def hexdigit_in_table)
qed

lemma length_EncodeToString: "length (EncodeToString src) = 2 * length src"
  by (induction src) (simp_all add: EncodeToString_def)

text \<open>
  \<open>Clean\<close> leaves a rooted path of proper elements as it is: such a path is normalized.
\<close>

lemma path_elems_not_Nil: "path_elems s \<noteq> []"
  by (induction s) (auto split: list.splits)

lemma path_elems_no_sep: "CHR ''/'' \<notin> set e \<Longrightarrow> path_elems e = [e]"
  by (induction e) auto

lemma path_elems_append:
  "CHR ''/'' \<notin> set e \<Longrightarrow> path_elems (e @ CHR ''/'' # rest) = e # path_elems rest"
  by (induction e) auto

lemma path_elems_join:
  "es \<noteq> [] \<Longrightarrow> list_all path_elem es \<Longrightarrow> path_elems (join_elems es) = es"
proof (induction es rule: join_elems.induct)
  case 1
  then show ?case by simp
next
  case (2 e)
  then show ?case by (simp add: path_elem_def path_elems_no_sep)
next
  case (3 e e' es)
  then show ?case by (simp add: path_elem_def path_elems_append)
qed

lemma clean_elems_normal:
  "list_all path_elem es \<Longrightarrow> clean_elems rooted out es = rev out @ es"
  by (induction es arbitrary: out) (auto simp: path_elem_def)

lemma Clean_normal:
  assumes "list_all path_elem es"
  shows "Clean (CHR ''/'' # join_elems es) = CHR ''/'' # join_elems es"
proof (cases es)
  case Nil
  then show ?thesis by (simp add: Clean_def)
next
  case (Cons e es')
  then have "path_elems (join_elems es) = es"
    using assms path_elems_join [of es] by simp
  then have "clean_elems True [] (path_elems (CHR ''/'' # join_elems es)) = es"
    using assms by (simp add: clean_elems_normal)
  then show ?thesis by (simp add: Clean_def)
qed

section \<open>Facts about the plugin\<close>

text \<open>The paths of the examples, and how a normalized path is parsed.\<close>

lemma Clean_ex1: "Clean ''/ns/docs/a.txt'' = ''/ns/docs/a.txt''"
  by (simp add: Clean_def)

lemma Clean_ex3: "Clean ''/ns/.indexing'' = ''/ns/.indexing''"
  by (simp add: Clean_def)

lemma parsePath_ex1: "parsePath ''/ns/docs/a.txt'' = Inr (''ns'', ''docs/a.txt'')"
  by (simp add: parsePath_def Clean_def TrimPrefix_def HasPrefix_def SplitN2_def)

lemma parsePath_ex2: "parsePath ''/ns/docsX'' = Inr (''ns'', ''docsX'')"
  by (simp add: parsePath_def Clean_def TrimPrefix_def HasPrefix_def SplitN2_def)

lemma parsePath_ex4: "parsePath ''/ns/docs/b.txt'' = Inr (''ns'', ''docs/b.txt'')"
  by (simp add: parsePath_def Clean_def TrimPrefix_def HasPrefix_def SplitN2_def)

lemma parsePath_ex5: "parsePath ''/ns'' = Inr (''ns'', [])"
  by (simp add: parsePath_def Clean_def TrimPrefix_def HasPrefix_def SplitN2_def)

lemma parsePath_normal:
  assumes "Clean path = path" and "path = CHR ''/'' # ns @ CHR ''/'' # rel"
    and "CHR ''/'' \<notin> set ns"
  shows "parsePath path = Inr (ns, rel)"
proof -
  have "TrimPrefix path ''/'' = ns @ CHR ''/'' # rel"
    using assms(2) TrimPrefix_append [of "''/''" "ns @ CHR ''/'' # rel"] by simp
  moreover have "ns @ CHR ''/'' # rel \<noteq> ''.''"
    by (cases ns) auto
  ultimately show ?thesis
    using assms(1,3) by (simp add: parsePath_def SplitN2_first_sep)
qed

lemma Write_docs:
  assumes "parsePath path = Inr (namespace, ''docs/'' @ fileName)" and "\<not> queueClosed v"
  shows "Write v path content offset flags =
     (let task = \<lparr>task_namespace = namespace, task_digest = EncodeToString (Sum256 content),
                   task_fileName = fileName, task_data = string_of_bytes content\<rparr>
      in if length (indexQueue v) < queueCapacity
         then (v\<lparr>indexQueue := indexQueue v @ [task], enqueued := enqueued v @ [task]\<rparr>,
               Inr (int (length content)))
         else (v\<lparr>senders := senders v @ [task]\<rparr>, Inr (int (length content))))"
  using assms TrimPrefix_append [of "''docs/''" fileName] HasPrefix_append [of "''docs/''" fileName]
  by (simp add: Write_def Let_def)

text \<open>The definitions a concrete run is evaluated with.\<close>

lemmas run_defs =
  Initialize_def Write_def HasPrefix_def TrimPrefix_def queueCapacity_def IndexDocument_def
  PrepareDocument_def FileExists_def UploadDocument_def InsertFileMetadata_def Let_def
  buildKey_def

text \<open>The prepare phase on a digest the files table does not hold, and on one it holds.\<close>

lemma upsert_row_fresh:
  "FileDigest m \<notin> set (map FileDigest rows) \<Longrightarrow> upsert_row m rows = rows @ [m]"
  by (induction rows) auto

lemma PrepareDocument_new:
  assumes "tidbTables v namespace = Some rows" and "digest \<notin> set (map FileDigest rows)"
    and "s3Reachable v"
  shows "PrepareDocument now v namespace digest fileName content =
     (v\<lparr>s3Objects := (s3Objects v)(buildKey v namespace digest \<mapsto> bytes_of_string content),
        tidbTables := (tidbTables v)(namespace \<mapsto> rows @
          [\<lparr>FileDigest = digest, FileName = fileName, S3Key = buildKey v namespace digest,
            FileSize = int (length content), CreatedAt = now, UpdatedAt = now\<rparr>])\<rparr>,
      Inr False)"
  using assms
  by (simp add: PrepareDocument_def FileExists_def UploadDocument_def InsertFileMetadata_def
      Let_def upsert_row_fresh)

lemma PrepareDocument_present:
  assumes "tidbTables v namespace = Some rows" and "digest \<in> set (map FileDigest rows)"
  shows "PrepareDocument now v namespace digest fileName content = (v, Inr True)"
  using assms by (simp add: PrepareDocument_def FileExists_def)

lemma PrepareDocument_Inr_False:
  assumes "PrepareDocument now v namespace digest fileName content = (v1, Inr False)"
  obtains rows where "tidbTables v namespace = Some rows"
    and "digest \<notin> set (map FileDigest rows)" and "s3Reachable v"
proof -
  from assms obtain rows where r: "tidbTables v namespace = Some rows"
    by (cases "tidbTables v namespace")
      (auto simp: PrepareDocument_def FileExists_def)
  moreover from assms r have "digest \<notin> set (map FileDigest rows)"
    by (auto simp: PrepareDocument_def FileExists_def split: if_splits)
  moreover from assms r have "s3Reachable v"
    by (auto simp: PrepareDocument_def FileExists_def UploadDocument_def split: if_splits)
  ultimately show ?thesis using that by blast
qed

text \<open>The tasks in flight when a worker receives, returns or finishes.\<close>

lemma in_flight_receive:
  "i < length ws \<Longrightarrow> ws ! i = Selecting \<Longrightarrow>
     mset (in_flight (ws[i := Indexing task])) = add_mset task (mset (in_flight ws))"
proof (induction ws arbitrary: i)
  case Nil
  then show ?case by simp
next
  case (Cons w ws)
  show ?case
  proof (cases i)
    case 0
    with Cons.prems show ?thesis by simp
  next
    case (Suc j)
    with Cons show ?thesis by (cases w) simp_all
  qed
qed

lemma in_flight_return:
  "i < length ws \<Longrightarrow> ws ! i = Selecting \<Longrightarrow> in_flight (ws[i := Returned]) = in_flight ws"
proof (induction ws arbitrary: i)
  case Nil
  then show ?case by simp
next
  case (Cons w ws)
  show ?case
  proof (cases i)
    case 0
    with Cons.prems show ?thesis by simp
  next
    case (Suc j)
    with Cons show ?thesis by (cases w) simp_all
  qed
qed

lemma in_flight_finish:
  "i < length ws \<Longrightarrow> ws ! i = Indexing task \<Longrightarrow>
     mset (in_flight ws) = add_mset task (mset (in_flight (ws[i := Selecting])))"
proof (induction ws arbitrary: i)
  case Nil
  then show ?case by simp
next
  case (Cons w ws)
  show ?case
  proof (cases i)
    case 0
    with Cons.prems show ?thesis by simp
  next
    case (Suc j)
    with Cons show ?thesis by (cases w) simp_all
  qed
qed

lemma in_flight_all_Returned:
  "list_all (\<lambda>w. w = Returned) ws \<Longrightarrow> in_flight ws = []"
  by (induction ws) auto

lemma all_Returned_nth:
  "list_all (\<lambda>w. w = Returned) ws \<Longrightarrow> i < length ws \<Longrightarrow> ws ! i = Returned"
  by (simp add: list_all_length)

lemma subset_add_mset_right: "A \<subseteq># B \<Longrightarrow> A \<subseteq># add_mset x B"
  using subset_mset.order_trans [of A B "add_mset x B"] by simp

text \<open>A worker's call changes the services only; every step keeps the invariant of runs.\<close>

lemma IndexDocument_frame:
  "indexQueue (fst (IndexDocument now v namespace digest fileName content)) = indexQueue v"
  "queueClosed (fst (IndexDocument now v namespace digest fileName content)) = queueClosed v"
  "shutdownClosed (fst (IndexDocument now v namespace digest fileName content)) = shutdownClosed v"
  "senders (fst (IndexDocument now v namespace digest fileName content)) = senders v"
  "workers (fst (IndexDocument now v namespace digest fileName content)) = workers v"
  "shutdownCall (fst (IndexDocument now v namespace digest fileName content)) = shutdownCall v"
  "panicked (fst (IndexDocument now v namespace digest fileName content)) = panicked v"
  "enqueued (fst (IndexDocument now v namespace digest fileName content)) = enqueued v"
  "indexed (fst (IndexDocument now v namespace digest fileName content)) = indexed v"
  by (simp_all add: IndexDocument_def PrepareDocument_def UploadDocument_def
      InsertFileMetadata_def FileExists_def Let_def split: sum.splits option.splits prod.splits)

lemma Write_run_invariant:
  assumes "run_invariant v"
  shows "run_invariant (fst (Write v path content offset flags))"
  using assms
  by (auto simp: Write_def run_invariant_def Let_def split: sum.splits prod.splits
      intro: subset_mset.add_increasing2)

lemma step_run_invariant:
  assumes "step e v = Some v1" and "run_invariant v"
  shows "run_invariant v1"
proof (cases e)
  case (CallWrite path content offset flags)
  with assms show ?thesis by (auto simp: Write_run_invariant)
next
  case (SenderSends i)
  with assms show ?thesis
    by (auto simp: run_invariant_def split: if_splits)
next
  case (WorkerReceives i)
  show ?thesis
  proof (cases "indexQueue v")
    case Nil
    with assms WorkerReceives show ?thesis
      by (auto simp: run_invariant_def in_flight_receive all_Returned_nth
          split: if_splits intro: subset_add_mset_right)
  next
    case (Cons task rest)
    with assms WorkerReceives show ?thesis
      by (auto simp: run_invariant_def in_flight_receive all_Returned_nth split: if_splits)
  qed
next
  case (WorkerSeesShutdown i)
  with assms show ?thesis
    by (auto simp: run_invariant_def in_flight_return all_Returned_nth split: if_splits)
next
  case (WorkerFinishes i now)
  from assms(1) WorkerFinishes obtain task where
    i: "i < length (workers v)" and w: "workers v ! i = Indexing task"
    by (auto split: if_splits worker.splits)
  let ?v = "fst (IndexDocument now v (task_namespace task) (task_digest task)
                   (task_fileName task) (task_data task))"
  have v1: "v1 = ?v\<lparr>workers := (workers ?v)[i := Selecting], indexed := indexed ?v @ [task]\<rparr>"
    using assms(1) WorkerFinishes i w by (simp add: Let_def)
  have "mset (in_flight (workers v)) = add_mset task (mset (in_flight ((workers v)[i := Selecting])))"
    using i w by (rule in_flight_finish)
  moreover have "shutdownCall v \<noteq> Joined"
    using assms(2) i w all_Returned_nth [of "workers v" i] by (auto simp: run_invariant_def)
  ultimately show ?thesis
    using assms(2) by (simp add: v1 run_invariant_def IndexDocument_frame)
next
  case ShutdownClosesSignal
  with assms show ?thesis
    by (auto simp: run_invariant_def split: if_splits)
next
  case ShutdownClosesQueue
  with assms show ?thesis
    by (auto simp: run_invariant_def split: if_splits)
next
  case ShutdownJoins
  with assms show ?thesis
    by (auto simp: run_invariant_def split: if_splits)
qed

lemma exec_run_invariant:
  "exec evs v = Some v1 \<Longrightarrow> run_invariant v \<Longrightarrow> run_invariant v1"
proof (induction evs arbitrary: v)
  case Nil
  then show ?case by simp
next
  case (Cons e evs)
  from Cons.prems(1) obtain v2 where "step e v = Some v2" and "exec evs v2 = Some v1"
    by (auto split: if_splits option.splits)
  with Cons show ?case using step_run_invariant by blast
qed

lemma Initialize_run_invariant:
  "run_invariant (Initialize keyPrefix objects tables workerCount)"
proof -
  have "in_flight (replicate n Selecting) = []" for n
    by (induction n) simp_all
  then show ?thesis by (simp add: run_invariant_def Initialize_def)
qed

section \<open>The claims about the vector backend\<close>

text \<open>
  Claim C1, as amended.  Two writes of the same bytes under a namespace's \<^verbatim>\<open>docs/\<close> build
  tasks with the same digest, the digest being computed from the bytes alone.  Once the
  prepare phase of the first task has stored its object and its record (it returned
  \<^verbatim>\<open>alreadyExists = false\<close>), the prepare phase of the second finds the digest and returns
  \<^verbatim>\<open>alreadyExists = true\<close> with the plugin unchanged: nothing is uploaded, nothing is
  inserted, the object store holds the one object of the first task.  The record of the
  digest keeps the filename of the first write; it is not set to the second write's.
\<close>

theorem second_write_is_skipped:
  assumes "PrepareDocument now1 v namespace (EncodeToString (Sum256 content)) fileName1
             (string_of_bytes content) = (v1, Inr False)"
  shows "PrepareDocument now2 v1 namespace (EncodeToString (Sum256 content)) fileName2
             (string_of_bytes content) = (v1, Inr True)
       \<and> s3Objects v1 = (s3Objects v)(buildKey v namespace (EncodeToString (Sum256 content))
                                         \<mapsto> content)
       \<and> (case tidbTables v1 namespace of
             None \<Rightarrow> False
           | Some rows \<Rightarrow>
               map FileName (filter (\<lambda>r. FileDigest r = EncodeToString (Sum256 content)) rows)
                 = [fileName1])"
proof -
  let ?d = "EncodeToString (Sum256 content)"
  from assms obtain rows where r: "tidbTables v namespace = Some rows"
    and fresh: "?d \<notin> set (map FileDigest rows)" and up: "s3Reachable v"
    by (rule PrepareDocument_Inr_False)
  let ?m = "\<lparr>FileDigest = ?d, FileName = fileName1, S3Key = buildKey v namespace ?d,
              FileSize = int (length (string_of_bytes content)),
              CreatedAt = now1, UpdatedAt = now1\<rparr>"
  have v1: "v1 = v\<lparr>s3Objects := (s3Objects v)(buildKey v namespace ?d \<mapsto> content),
                    tidbTables := (tidbTables v)(namespace \<mapsto> rows @ [?m])\<rparr>"
    using assms PrepareDocument_new [OF r fresh up, of now1 fileName1 "string_of_bytes content"]
    by (simp add: bytes_of_string_inverse)
  have t1: "tidbTables v1 namespace = Some (rows @ [?m])"
    by (simp add: v1)
  have "?d \<in> set (map FileDigest (rows @ [?m]))" by simp
  with t1 have a: "PrepareDocument now2 v1 namespace ?d fileName2 (string_of_bytes content)
      = (v1, Inr True)"
    by (rule PrepareDocument_present)
  have b: "s3Objects v1 = (s3Objects v)(buildKey v namespace ?d \<mapsto> content)"
    by (simp add: v1)
  have "filter (\<lambda>r. FileDigest r = ?d) rows = []"
    using fresh by (auto simp: filter_empty_conv image_iff)
  then have c: "map FileName (filter (\<lambda>r. FileDigest r = ?d) (rows @ [?m])) = [fileName1]"
    by simp
  show ?thesis using a b c t1 by simp
qed


theorem second_write_is_skipped_witness:
  "snd (PrepareDocument 2
          (fst (PrepareDocument 1 (Initialize ''vectorfs'' Map.empty [''ns'' \<mapsto> []] 4) ''ns''
                  (EncodeToString (Sum256 (bytes_of_string ''payload''))) ''a.txt''
                  (string_of_bytes (bytes_of_string ''payload''))))
          ''ns'' (EncodeToString (Sum256 (bytes_of_string ''payload''))) ''b.txt''
          (string_of_bytes (bytes_of_string ''payload''))) = Inr True
   \<and> s3Objects
         (fst (PrepareDocument 1 (Initialize ''vectorfs'' Map.empty [''ns'' \<mapsto> []] 4) ''ns''
                 (EncodeToString (Sum256 (bytes_of_string ''payload''))) ''a.txt''
                 (string_of_bytes (bytes_of_string ''payload''))))
         (''vectorfs/ns/'' @ EncodeToString (Sum256 (bytes_of_string ''payload'')))
       = Some (bytes_of_string ''payload'')"
proof -
  let ?v = "Initialize ''vectorfs'' Map.empty [''ns'' \<mapsto> []] 4"
  let ?d = "EncodeToString (Sum256 (bytes_of_string ''payload''))"
  let ?c = "string_of_bytes (bytes_of_string ''payload'')"
  let ?v1 = "fst (PrepareDocument 1 ?v ''ns'' ?d ''a.txt'' ?c)"
  have h: "PrepareDocument 1 ?v ''ns'' ?d ''a.txt'' ?c = (?v1, Inr False)"
    by (simp add: run_defs)
  have k: "buildKey ?v ''ns'' ?d = ''vectorfs/ns/'' @ ?d"
    by (simp add: buildKey_def Initialize_def)
  from second_write_is_skipped [OF h, of 2 "''b.txt''"] show ?thesis
    by (simp add: k)
qed

text \<open>
  The claim as stated fails in its last part.  \<^verbatim>\<open>payload\<close> is written to \<^verbatim>\<open>a.txt\<close> and
  then to \<^verbatim>\<open>b.txt\<close> of namespace \<^verbatim>\<open>ns\<close>, and a worker indexes both tasks in turn: the one
  record of the namespace is still named \<^verbatim>\<open>a.txt\<close>.
\<close>

theorem second_write_keeps_first_filename:
  "(case exec [CallWrite ''/ns/docs/a.txt'' (bytes_of_string ''payload'') (- 1) {WriteFlagCreate},
               CallWrite ''/ns/docs/b.txt'' (bytes_of_string ''payload'') (- 1) {WriteFlagCreate},
               WorkerReceives 0, WorkerFinishes 0 1, WorkerReceives 0, WorkerFinishes 0 2]
              (Initialize ''vectorfs'' Map.empty [''ns'' \<mapsto> []] 1) of
      None \<Rightarrow> None
    | Some v \<Rightarrow> map_option (map FileName) (tidbTables v ''ns'')) = Some [''a.txt'']"
  by (simp add: run_defs parsePath_ex1 parsePath_ex4 string_of_bytes_inverse)

text \<open>
  Claim C2.  A write to the normalized path \<^verbatim>\<open>/<namespace>/docs/<rel>\<close>, on a plugin whose
  queue has not been closed by \<^verbatim>\<open>Shutdown\<close>, returns \<^verbatim>\<open>int64(len(data))\<close> and no error.
  The task it builds holds the namespace, the digest of the data, \<^verbatim>\<open>rel\<close> and the data;
  the digest is 64 characters, all lower-case hexadecimal digits, the encoding of the 32
  bytes of SHA-256.  With fewer than 100 tasks in the queue the task is appended to the
  queue; with the queue full the queue is left as it is and the task is held by a
  detached sender.  The call never waits: as a step of a run it can be taken in every
  state.
\<close>

theorem Write_acknowledges:
  assumes "Clean path = path" and "path = ''/'' @ namespace @ ''/docs/'' @ rel"
    and "CHR ''/'' \<notin> set namespace" and "\<not> queueClosed v"
  shows "snd (Write v path content offset flags) = Inr (int (length content))
       \<and> fst (Write v path content offset flags) =
           (let task = \<lparr>task_namespace = namespace, task_digest = EncodeToString (Sum256 content),
                         task_fileName = rel, task_data = string_of_bytes content\<rparr>
            in if length (indexQueue v) < 100
               then v\<lparr>indexQueue := indexQueue v @ [task], enqueued := enqueued v @ [task]\<rparr>
               else v\<lparr>senders := senders v @ [task]\<rparr>)
       \<and> length (EncodeToString (Sum256 content)) = 64
       \<and> set (EncodeToString (Sum256 content)) \<subseteq> set ''0123456789abcdef''
       \<and> step (CallWrite path content offset flags) v \<noteq> None"
proof -
  have "parsePath path = Inr (namespace, ''docs/'' @ rel)"
    using assms(1,2,3) parsePath_normal [of path namespace "''docs/'' @ rel"] by simp
  then have "Write v path content offset flags =
     (let task = \<lparr>task_namespace = namespace, task_digest = EncodeToString (Sum256 content),
                   task_fileName = rel, task_data = string_of_bytes content\<rparr>
      in if length (indexQueue v) < queueCapacity
         then (v\<lparr>indexQueue := indexQueue v @ [task], enqueued := enqueued v @ [task]\<rparr>,
               Inr (int (length content)))
         else (v\<lparr>senders := senders v @ [task]\<rparr>, Inr (int (length content))))"
    using assms(4) by (rule Write_docs)
  moreover have "set (EncodeToString (Sum256 content)) \<subseteq> set ''0123456789abcdef''"
    using EncodeToString_hex [of "Sum256 content"] by (simp only: hextable_def)
  ultimately show ?thesis
    by (simp add: Let_def queueCapacity_def length_EncodeToString length_Sum256)
qed

theorem Write_acknowledges_witness:
  "snd (Write (Initialize ''vectorfs'' Map.empty Map.empty 4) ''/ns/docs/a.txt''
          (bytes_of_string ''payload'') (- 1) {WriteFlagCreate}) = Inr 7
   \<and> indexQueue (fst (Write (Initialize ''vectorfs'' Map.empty Map.empty 4) ''/ns/docs/a.txt''
          (bytes_of_string ''payload'') (- 1) {WriteFlagCreate}))
       = [\<lparr>task_namespace = ''ns'',
           task_digest = EncodeToString (Sum256 (bytes_of_string ''payload'')),
           task_fileName = ''a.txt'', task_data = ''payload''\<rparr>]"
proof -
  let ?v = "Initialize ''vectorfs'' Map.empty Map.empty 4"
  have f: "''/ns/docs/a.txt'' = ''/'' @ ''ns'' @ ''/docs/'' @ ''a.txt''" by simp
  have n: "CHR ''/'' \<notin> set ''ns''" by simp
  have q: "\<not> queueClosed ?v" by (simp add: Initialize_def)
  have e: "indexQueue ?v = []" by (simp add: Initialize_def)
  have l: "length (bytes_of_string ''payload'') = 7" by (simp add: bytes_of_string_def)
  note w = Write_acknowledges [OF Clean_ex1 f n q, of "bytes_of_string ''payload''" "- 1"
      "{WriteFlagCreate}"]
  from w have "snd (Write ?v ''/ns/docs/a.txt'' (bytes_of_string ''payload'') (- 1)
      {WriteFlagCreate}) = Inr 7"
    by (simp only: l) simp
  moreover from w have "indexQueue (fst (Write ?v ''/ns/docs/a.txt''
      (bytes_of_string ''payload'') (- 1) {WriteFlagCreate}))
       = [\<lparr>task_namespace = ''ns'',
           task_digest = EncodeToString (Sum256 (bytes_of_string ''payload'')),
           task_fileName = ''a.txt'', task_data = ''payload''\<rparr>]"
    by (simp only: e string_of_bytes_inverse Let_def) simp
  ultimately show ?thesis by (rule conjI)
qed

text \<open>
  Claim C3, as amended.  \<^verbatim>\<open>Shutdown\<close> closes the shutdown signal first and the queue second
  (in no state of a run is the queue closed and the signal open), and it returns only
  after every worker has returned, so no task is then inside \<^verbatim>\<open>IndexDocument\<close>.  Every
  task the queue has accepted is, when \<^verbatim>\<open>Shutdown\<close> returns, either indexed or still in
  the closed queue: a task a worker has received is carried through, a task no worker
  has received is left behind.
\<close>

theorem Shutdown_joins_workers:
  assumes "exec evs (Initialize keyPrefix objects tables workerCount) = Some v"
  shows "(queueClosed v \<longrightarrow> shutdownClosed v)
       \<and> (shutdownCall v = Joined \<longrightarrow>
            shutdownClosed v \<and> queueClosed v
            \<and> list_all (\<lambda>w. w = Returned) (workers v)
            \<and> in_flight (workers v) = []
            \<and> mset (enqueued v) \<subseteq># mset (indexed v) + mset (indexQueue v))"
proof -
  have inv: "run_invariant v"
    using assms Initialize_run_invariant by (rule exec_run_invariant)
  then have "queueClosed v \<longrightarrow> shutdownClosed v"
    by (auto simp: run_invariant_def)
  moreover have "shutdownClosed v \<and> queueClosed v
            \<and> list_all (\<lambda>w. w = Returned) (workers v)
            \<and> in_flight (workers v) = []
            \<and> mset (enqueued v) \<subseteq># mset (indexed v) + mset (indexQueue v)"
    if j: "shutdownCall v = Joined"
  proof -
    from inv j have r: "list_all (\<lambda>w. w = Returned) (workers v)"
      by (simp add: run_invariant_def)
    then have f: "in_flight (workers v) = []" by (rule in_flight_all_Returned)
    from inv j r f show ?thesis
      by (simp add: run_invariant_def add.commute)
  qed
  ultimately show ?thesis by blast
qed

theorem Shutdown_joins_workers_witness:
  "(case exec [CallWrite ''/ns/docs/a.txt'' (bytes_of_string ''payload'') (- 1) {WriteFlagCreate},
               CallWrite ''/ns/docs/b.txt'' (bytes_of_string ''other'') (- 1) {WriteFlagCreate},
               WorkerReceives 0, ShutdownClosesSignal, ShutdownClosesQueue,
               WorkerFinishes 0 1, WorkerSeesShutdown 0, ShutdownJoins]
              (Initialize ''vectorfs'' Map.empty [''ns'' \<mapsto> []] 1) of
      None \<Rightarrow> False
    | Some v \<Rightarrow> shutdownCall v = Joined \<and> shutdownClosed v \<and> queueClosed v
                \<and> list_all (\<lambda>w. w = Returned) (workers v)
                \<and> map task_fileName (indexed v) = [''a.txt'']
                \<and> map task_fileName (indexQueue v) = [''b.txt'']
                \<and> mset (enqueued v) \<subseteq># mset (indexed v) + mset (indexQueue v))"
proof -
  let ?run = "exec [CallWrite ''/ns/docs/a.txt'' (bytes_of_string ''payload'') (- 1) {WriteFlagCreate},
               CallWrite ''/ns/docs/b.txt'' (bytes_of_string ''other'') (- 1) {WriteFlagCreate},
               WorkerReceives 0, ShutdownClosesSignal, ShutdownClosesQueue,
               WorkerFinishes 0 1, WorkerSeesShutdown 0, ShutdownJoins]
              (Initialize ''vectorfs'' Map.empty [''ns'' \<mapsto> []] 1)"
  obtain v where ev: "?run = Some v" and j: "shutdownCall v = Joined"
    and a: "map task_fileName (indexed v) = [''a.txt'']"
    and b: "map task_fileName (indexQueue v) = [''b.txt'']"
    by (simp add: run_defs parsePath_ex1 parsePath_ex4 string_of_bytes_inverse)
  from Shutdown_joins_workers [OF ev] j
  have "shutdownClosed v \<and> queueClosed v \<and> list_all (\<lambda>w. w = Returned) (workers v)
        \<and> mset (enqueued v) \<subseteq># mset (indexed v) + mset (indexQueue v)"
    by blast
  with ev j a b show ?thesis by simp
qed

text \<open>
  The claim as stated fails: the queue is not drained.  A task is enqueued, \<^verbatim>\<open>Shutdown\<close>
  closes both channels, each of the two workers takes the \<^verbatim>\<open><-v.shutdown\<close> arm of its
  \<^verbatim>\<open>select\<close> and returns, and \<^verbatim>\<open>Shutdown\<close> returns with the task still in the queue and
  never indexed.
\<close>

theorem Shutdown_abandons_queued_task:
  "(case exec [CallWrite ''/ns/docs/a.txt'' (bytes_of_string ''payload'') (- 1) {WriteFlagCreate},
               ShutdownClosesSignal, ShutdownClosesQueue,
               WorkerSeesShutdown 0, WorkerSeesShutdown 1, ShutdownJoins]
              (Initialize ''vectorfs'' Map.empty [''ns'' \<mapsto> []] 2) of
      None \<Rightarrow> False
    | Some v \<Rightarrow> shutdownCall v = Joined \<and> \<not> panicked v
                \<and> map task_fileName (enqueued v) = [''a.txt'']
                \<and> indexed v = []
                \<and> map task_fileName (indexQueue v) = [''a.txt''])"
  by (simp add: run_defs parsePath_ex1 string_of_bytes_inverse numeral_2_eq_2)

text \<open>
  Claim C4, as amended.  \<^verbatim>\<open>Remove\<close> returns an error for every path and changes nothing.
  \<^verbatim>\<open>RemoveAll\<close> succeeds exactly when the path parses to a namespace with an empty relative
  path; it then drops the tables of that namespace.  On the root and on every deeper path
  it returns an error and changes nothing.  In no case does it touch the object store:
  the objects of a removed namespace stay.
\<close>

theorem RemoveAll_drops_tables_only:
  "snd (Remove v path) \<noteq> None \<and> fst (Remove v path) = v
   \<and> s3Objects (fst (RemoveAll v path)) = s3Objects v
   \<and> (case parsePath path of
         Inl err \<Rightarrow> RemoveAll v path = (v, Some err)
       | Inr (namespace, relativePath) \<Rightarrow>
           if namespace \<noteq> [] \<and> relativePath = []
           then RemoveAll v path = (v\<lparr>tidbTables := (tidbTables v)(namespace := None)\<rparr>, None)
           else fst (RemoveAll v path) = v \<and> snd (RemoveAll v path) \<noteq> None)"
  by (auto simp: Remove_def RemoveAll_def DeleteNamespace_def split: sum.splits)

text \<open>
  The claim as stated fails where it has the objects deleted.  A document is written and
  indexed in namespace \<^verbatim>\<open>ns\<close>; \<^verbatim>\<open>RemoveAll\<close> of \<^verbatim>\<open>/ns\<close> succeeds and the tables are gone,
  and the object is still in the store under its key.
\<close>

theorem RemoveAll_leaves_objects:
  "(case exec [CallWrite ''/ns/docs/a.txt'' (bytes_of_string ''payload'') (- 1) {WriteFlagCreate},
               WorkerReceives 0, WorkerFinishes 0 1]
              (Initialize ''vectorfs'' Map.empty [''ns'' \<mapsto> []] 1) of
      None \<Rightarrow> False
    | Some v \<Rightarrow>
        snd (RemoveAll v ''/ns'') = None
        \<and> tidbTables (fst (RemoveAll v ''/ns'')) ''ns'' = None
        \<and> s3Objects (fst (RemoveAll v ''/ns''))
             (''vectorfs/ns/'' @ EncodeToString (Sum256 (bytes_of_string ''payload'')))
            = Some (bytes_of_string ''payload''))"
  by (simp add: run_defs parsePath_ex1 parsePath_ex5 string_of_bytes_inverse RemoveAll_def
      DeleteNamespace_def)

text \<open>
  Claim C5.  \<^verbatim>\<open>CustomGrep\<close> is to succeed only for a path inside a namespace's \<^verbatim>\<open>docs/\<close>
  directory.  Its guard tests the prefix \<^verbatim>\<open>docs\<close>, not \<^verbatim>\<open>docs/\<close>: for the path
  \<^verbatim>\<open>/ns/docsX\<close>, which is outside \<^verbatim>\<open>docs/\<close>, the guard passes and the call is the vector
  search of namespace \<^verbatim>\<open>ns\<close> (one query embedding, top 10).
\<close>

theorem CustomGrep_outside_docs:
  "CustomGrep GenerateEmbedding tidbVectorSearch one_minus ''/ns/docsX'' query
     = VectorSearch GenerateEmbedding tidbVectorSearch one_minus ''ns'' query"
  by (simp add: CustomGrep_def parsePath_ex2 HasPrefix_def)

text \<open>
  Claim C6, as amended.  The claim asks every backend to refuse a write whose flags hold
  \<^verbatim>\<open>Exclusive\<close> without \<^verbatim>\<open>Create\<close>.  \<^verbatim>\<open>vectorFS.Write\<close> never reads its flags, nor its
  offset: the same path and data give the same result and the same state under any two
  flag values and offsets, so such a write is treated like any other.
\<close>

theorem Write_ignores_flags:
  "Write v path content offset flags = Write v path content offset' flags'"
  by (simp add: Write_def)

text \<open>
  The claim as stated fails: a write to \<^verbatim>\<open>/ns/docs/a.txt\<close> with the flags \<^verbatim>\<open>Exclusive\<close>
  alone returns the length of its data and no error.
\<close>

theorem Write_Exclusive_without_Create_succeeds:
  "snd (Write (Initialize ''vectorfs'' Map.empty Map.empty 4) ''/ns/docs/a.txt''
         (bytes_of_string ''x'') 0 {WriteFlagExclusive}) = Inr 1"
  by (simp add: Write_def parsePath_ex1 HasPrefix_def Initialize_def queueCapacity_def
        bytes_of_string_def Let_def)

text \<open>
  Claim C7.  For every namespace name, a read of the normalized path
  \<^verbatim>\<open>/<namespace>/.indexing\<close> returns the four bytes \<^verbatim>\<open>idle\<close> for every offset and size and
  in every state of the plugin (whatever is queued or being indexed), and \<^verbatim>\<open>Stat\<close> reports
  a file of size 4 that is not a directory.
\<close>

theorem indexing_status_idle:
  assumes "Clean path = path" and "path = ''/'' @ namespace @ ''/.indexing''"
    and "CHR ''/'' \<notin> set namespace"
  shows "Read v path offset sz = Inr (bytes_of_string ''idle'')
       \<and> Stat now v path =
           Inr \<lparr>Name = ''.indexing'', Size = 4, Mode = 292, ModTime = now, IsDir = False,
                Meta = \<lparr>MetaName = ''vectorfs'', MetaType = ''status''\<rparr>\<rparr>"
proof -
  have p: "parsePath path = Inr (namespace, ''.indexing'')"
    using assms parsePath_normal [of path namespace "''.indexing''"] by simp
  have "path \<noteq> ''/README''"
  proof
    assume "path = ''/README''"
    then have "parsePath path = Inr (''README'', [])"
      by (simp add: parsePath_def Clean_def TrimPrefix_def HasPrefix_def SplitN2_def)
    with p show False by simp
  qed
  moreover have "path \<noteq> ''/''"
    using assms(2) by simp
  ultimately have r: "Read v path offset sz = Inr (bytes_of_string ''idle'')"
    and t: "Stat now v path =
           Inr \<lparr>Name = ''.indexing'', Size = 4, Mode = 292, ModTime = now, IsDir = False,
                Meta = \<lparr>MetaName = ''vectorfs'', MetaType = ''status''\<rparr>\<rparr>"
    unfolding Read_def Stat_def PluginName_def by (simp_all only: p if_False) simp_all
  then show ?thesis by (simp only: simp_thms)
qed

theorem indexing_status_idle_witness:
  "Read (Initialize ''vectorfs'' Map.empty [''ns'' \<mapsto> []] 4) ''/ns/.indexing'' 2 1
     = Inr [0x69, 0x64, 0x6c, 0x65]
   \<and> Stat 0 (Initialize ''vectorfs'' Map.empty [''ns'' \<mapsto> []] 4) ''/ns/.indexing''
     = Inr \<lparr>Name = ''.indexing'', Size = 4, Mode = 292, ModTime = 0, IsDir = False,
            Meta = \<lparr>MetaName = ''vectorfs'', MetaType = ''status''\<rparr>\<rparr>"
proof -
  have f: "''/ns/.indexing'' = ''/'' @ ''ns'' @ ''/.indexing''" by simp
  have n: "CHR ''/'' \<notin> set ''ns''" by simp
  have b: "bytes_of_string ''idle'' = [0x69, 0x64, 0x6c, 0x65]"
    by (simp add: bytes_of_string_def)
  show ?thesis
    using indexing_status_idle [OF Clean_ex3 f n] by (simp only: b)
qed

text \<open>
  Claim C10.  \<^verbatim>\<open>vectorFS.Create\<close> succeeds for every path and does nothing: it returns no
  error, whatever the path, and leaves the plugin (queue, database, object store) as it
  was.  No path is inspected, so nothing is validated; a file appears only when a write
  has been indexed.
\<close>

theorem Create_performs_nothing:
  "snd (Create v path) = None \<and> fst (Create v path) = v"
  by (simp add: Create_def)

section \<open>The claims about the local backend\<close>

text \<open>
  The model reproduces the writes of the backend's tests: a write inside the file
  (\<^verbatim>\<open>TestLocalFSWriteWithOffset\<close>), an append, a truncating write, a first write under
  \<^verbatim>\<open>Create|Truncate\<close>, an exclusive create of a file that exists, and a write without
  \<^verbatim>\<open>Create\<close> at offset 0 to a file that does not exist.
\<close>

lemma LocalFS_Write_tests:
  "LocalFS_ReadAll (fst (LocalFS_Write [''/test.txt'' \<mapsto> bytes_of_string ''Hello, World!'']
      ''/test.txt'' (bytes_of_string ''XXXXX'') 7 WriteFlagNone)) ''/test.txt''
     = Inr (bytes_of_string ''Hello, XXXXX!'')"
  "LocalFS_ReadAll (fst (LocalFS_Write [''/test.txt'' \<mapsto> bytes_of_string ''Hello'']
      ''/test.txt'' (bytes_of_string '', World!'') 0 {WriteFlagAppend})) ''/test.txt''
     = Inr (bytes_of_string ''Hello, World!'')"
  "LocalFS_ReadAll (fst (LocalFS_Write [''/test.txt'' \<mapsto> bytes_of_string ''Hello, World!'']
      ''/test.txt'' (bytes_of_string ''Hi'') (- 1) {WriteFlagTruncate})) ''/test.txt''
     = Inr (bytes_of_string ''Hi'')"
  "LocalFS_ReadAll (fst (LocalFS_Write Map.empty
      ''/test.txt'' (bytes_of_string ''Hello, World!'') (- 1)
      {WriteFlagCreate, WriteFlagTruncate})) ''/test.txt''
     = Inr (bytes_of_string ''Hello, World!'')"
  "snd (LocalFS_Write [''/test.txt'' \<mapsto> bytes_of_string ''Hello'']
      ''/test.txt'' (bytes_of_string ''World'') (- 1) {WriteFlagCreate, WriteFlagExclusive})
     = Inl already_exists"
  "snd (LocalFS_Write Map.empty ''/nonexistent.txt'' (bytes_of_string ''Hello'') 0 WriteFlagNone)
     = Inl not_found"
  by (simp_all add: LocalFS_ReadAll_def LocalFS_Write_def WriteFlagNone_def write_position_def
      write_at_def bytes_of_string_def)

text \<open>
  Claim C8.  On a path with no file, a write whose flags do not hold \<^verbatim>\<open>Create\<close> fails and
  leaves the files as they were, unless the flags are \<^verbatim>\<open>None\<close> and the offset is \<open>-1\<close>; that
  write creates the file with the data as its content and returns the length of the data.
\<close>

theorem LocalFS_write_missing_file:
  assumes "fs path = None"
  shows "(WriteFlagCreate \<notin> flags \<and> \<not> (flags = WriteFlagNone \<and> offset = - 1) \<longrightarrow>
            fst (LocalFS_Write fs path content offset flags) = fs
            \<and> isl (snd (LocalFS_Write fs path content offset flags)))
       \<and> LocalFS_Write fs path content (- 1) WriteFlagNone
            = (fs(path \<mapsto> content), Inr (int (length content)))"
  using assms
  by (simp add: LocalFS_Write_def WriteFlagNone_def write_position_def write_at_def)

theorem LocalFS_write_missing_file_witness:
  "isl (snd (LocalFS_Write Map.empty ''/nonexistent.txt'' (bytes_of_string ''Hello'') 0
               WriteFlagNone))
   \<and> LocalFS_ReadAll (fst (LocalFS_Write Map.empty ''/nonexistent.txt''
                              (bytes_of_string ''Hello'') (- 1) WriteFlagNone))
        ''/nonexistent.txt'' = Inr (bytes_of_string ''Hello'')"
proof -
  have m: "(Map.empty :: string \<rightharpoonup> bytes) ''/nonexistent.txt'' = None" by simp
  have n: "WriteFlagCreate \<notin> WriteFlagNone \<and> \<not> (WriteFlagNone = WriteFlagNone \<and> (0::int) = - 1)"
    by (simp add: WriteFlagNone_def)
  from LocalFS_write_missing_file [of Map.empty "''/nonexistent.txt''" WriteFlagNone 0
      "bytes_of_string ''Hello''", OF m] n
  show ?thesis by (simp add: LocalFS_ReadAll_def)
qed

text \<open>
  Claim C9.  On a file of length \<open>L\<close>, a write of \<open>data\<close> at an offset beyond \<open>L\<close> with the
  flags \<^verbatim>\<open>None\<close> succeeds; the file is then the old content, zero bytes from \<open>L\<close> up to the
  offset, and the data, of length offset plus the length of the data.  The witness is
  the scenario of \<^verbatim>\<open>TestLocalFSWriteExtend\<close>: \<^verbatim>\<open>Hello\<close>, then \<^verbatim>\<open>World\<close> at offset 10, read back
  as 15 bytes.
\<close>

theorem LocalFS_write_hole_fill:
  assumes "fs path = Some old" and "int (length old) < offset"
  shows "LocalFS_Write fs path content offset WriteFlagNone
           = (fs(path \<mapsto> old @ replicate (nat offset - length old) 0 @ content),
              Inr (int (length content)))
       \<and> length (old @ replicate (nat offset - length old) 0 @ content)
           = nat offset + length content"
  using assms
  by (simp add: LocalFS_Write_def WriteFlagNone_def write_position_def write_at_def)

theorem LocalFS_write_hole_fill_witness:
  "LocalFS_ReadAll
     (fst (LocalFS_Write
             (fst (LocalFS_Write Map.empty ''/a'' (bytes_of_string ''Hello'') (- 1)
                     {WriteFlagCreate}))
             ''/a'' (bytes_of_string ''World'') 10 WriteFlagNone)) ''/a''
   = Inr (bytes_of_string ''Hello'' @ [0, 0, 0, 0, 0] @ bytes_of_string ''World'')
   \<and> length (bytes_of_string ''Hello'' @ [0, 0, 0, 0, 0] @ bytes_of_string ''World'') = 15"
proof -
  let ?fs = "fst (LocalFS_Write Map.empty ''/a'' (bytes_of_string ''Hello'') (- 1)
                     {WriteFlagCreate})"
  have f: "?fs ''/a'' = Some (bytes_of_string ''Hello'')"
    by (simp add: LocalFS_Write_def write_position_def write_at_def)
  have l: "int (length (bytes_of_string ''Hello'')) < 10"
    by (simp add: bytes_of_string_def)
  from LocalFS_write_hole_fill [of ?fs "''/a''" "bytes_of_string ''Hello''" 10
      "bytes_of_string ''World''", OF f l]
  show ?thesis by (simp add: LocalFS_ReadAll_def bytes_of_string_def numeral_eq_Suc)
qed

section \<open>Further properties of vectorfs.go\<close>

text \<open>
  A write to a path outside a namespace's \<^verbatim>\<open>docs/\<close> directory (the root, a namespace, the
  status file) is refused, and nothing is enqueued: the plugin is left as it was.
\<close>

theorem Write_outside_docs:
  assumes "parsePath path = Inr (namespace, relativePath)"
    and "\<not> HasPrefix relativePath ''docs/''"
  shows "Write v path content offset flags
           = (v, Inl (Err ''can only write files to docs/ directory''))"
  using assms by (simp add: Write_def)

theorem Write_outside_docs_witness:
  "Write (Initialize ''vectorfs'' Map.empty [''ns'' \<mapsto> []] 4) ''/ns'' (bytes_of_string ''x'') 0
     {WriteFlagCreate}
     = (Initialize ''vectorfs'' Map.empty [''ns'' \<mapsto> []] 4,
        Inl (Err ''can only write files to docs/ directory''))"
proof -
  have h: "\<not> HasPrefix [] ''docs/''" by (simp add: HasPrefix_def)
  show ?thesis by (rule Write_outside_docs [OF parsePath_ex5 h])
qed

text \<open>
  \<^verbatim>\<open>Stat\<close> knows the root, the README, the namespaces and their \<^verbatim>\<open>docs\<close> and \<^verbatim>\<open>.indexing\<close>
  entries only: for the normalized path of a document, \<^verbatim>\<open>/<namespace>/docs/<rel>\<close>, it
  returns \<^verbatim>\<open>ErrNotFound\<close> in every state, also when the document has been indexed.
\<close>

theorem Stat_document_not_found:
  assumes "Clean path = path" and "path = ''/'' @ namespace @ ''/docs/'' @ rel"
    and "CHR ''/'' \<notin> set namespace"
  shows "Stat now v path = Inl ErrNotFound"
proof -
  have p: "parsePath path = Inr (namespace, ''docs/'' @ rel)"
    using assms parsePath_normal [of path namespace "''docs/'' @ rel"] by simp
  have "path \<noteq> ''/README''"
  proof
    assume "path = ''/README''"
    then have "parsePath path = Inr (''README'', [])"
      by (simp add: parsePath_def Clean_def TrimPrefix_def HasPrefix_def SplitN2_def)
    with p show False by simp
  qed
  moreover have "path \<noteq> ''/''"
    using assms(2) by simp
  ultimately show ?thesis
    unfolding Stat_def by (simp only: p if_False) simp
qed

theorem Stat_document_not_found_witness:
  "(case exec [CallWrite ''/ns/docs/a.txt'' (bytes_of_string ''payload'') (- 1) {WriteFlagCreate},
               WorkerReceives 0, WorkerFinishes 0 1]
              (Initialize ''vectorfs'' Map.empty [''ns'' \<mapsto> []] 1) of
      None \<Rightarrow> False
    | Some v \<Rightarrow> map_option (map FileName) (tidbTables v ''ns'') = Some [''a.txt'']
                \<and> Stat 2 v ''/ns/docs/a.txt'' = Inl ErrNotFound)"
proof -
  have f: "''/ns/docs/a.txt'' = ''/'' @ ''ns'' @ ''/docs/'' @ ''a.txt''" by simp
  have n: "CHR ''/'' \<notin> set ''ns''" by simp
  obtain v where ev: "exec [CallWrite ''/ns/docs/a.txt'' (bytes_of_string ''payload'') (- 1)
               {WriteFlagCreate}, WorkerReceives 0, WorkerFinishes 0 1]
              (Initialize ''vectorfs'' Map.empty [''ns'' \<mapsto> []] 1) = Some v"
    and t: "map_option (map FileName) (tidbTables v ''ns'') = Some [''a.txt'']"
    by (simp add: run_defs parsePath_ex1 string_of_bytes_inverse)
  from Stat_document_not_found [OF Clean_ex1 f n, of 2 v] ev t show ?thesis by simp
qed


end
